theory Spec2Isabelle
  imports Main "HOL-Library.Word" "HOL-Library.Multiset" "HOL-Library.AList"
begin

unbundle bit_operations_syntax

section \<open>Python values and exceptions\<close>

text \<open>
  The bridge is a Python program. Its integers are unbounded and are modelled as \<open>int\<close>;
  \<open>&\<close>, \<open>|\<close>, \<open>^\<close>, \<open><<\<close> and \<open>>>\<close> are \<open>AND\<close>, \<open>OR\<close>, \<open>XOR\<close>, \<open>push_bit\<close> and
  \<open>drop_bit\<close> on \<open>int\<close> (two's complement on both sides). A \<open>list\<close> of integers and a
  \<open>bytes\<close> object are both \<open>int list\<close>; the constructor \<open>bytes(...)\<close> is the place where
  the range 0..255 is enforced. Every \<open>raise\<close> is a value \<open>Inl e\<close> of a sum type.
\<close>

datatype exn =
    ValueError
  | UnicodeDecodeError
  | IndexError
  | KeyError
  | SerialException

type_synonym 'a result = "exn + 'a"

definition is_ValueError :: "exn \<Rightarrow> bool" where
  \<comment> \<open>what \<open>except ValueError\<close> catches: \<open>UnicodeDecodeError\<close> is a subclass of
      \<open>ValueError\<close>, the other exceptions are not\<close>
  "is_ValueError e = (e = ValueError \<or> e = UnicodeDecodeError)"

definition py_bytes :: "int list \<Rightarrow> int list result" where
  \<comment> \<open>\<open>bytes(packet)\<close>: ValueError unless every element is in \<open>range(256)\<close>.\<close>
  "py_bytes packet =
     (if list_all (\<lambda>b. 0 \<le> b \<and> b < 256) packet then Inr packet else Inl ValueError)"

definition py_index :: "'a list \<Rightarrow> nat \<Rightarrow> 'a result" where
  \<comment> \<open>\<open>xs[i]\<close> for a non-negative index: IndexError out of range.\<close>
  "py_index xs i = (if i < length xs then Inr (xs ! i) else Inl IndexError)"

definition py_slice :: "nat \<Rightarrow> nat \<Rightarrow> 'a list \<Rightarrow> 'a list" where
  \<comment> \<open>\<open>xs[lo:hi]\<close> for non-negative bounds: never raises, shorter when \<open>xs\<close> is short.\<close>
  "py_slice lo hi xs = take (hi - lo) (drop lo xs)"

definition py_getitem :: "('k \<times> 'v) list \<Rightarrow> 'k \<Rightarrow> 'v result" where
  \<comment> \<open>\<open>d[key]\<close> on a dict kept in insertion order: KeyError when the key is absent.\<close>
  "py_getitem d key = (case map_of d key of None \<Rightarrow> Inl KeyError | Some v \<Rightarrow> Inr v)"

definition dict_update :: "('k \<times> 'v) list \<Rightarrow> ('k \<times> 'v) list \<Rightarrow> ('k \<times> 'v) list" where
  \<comment> \<open>\<open>d.update({...})\<close>: an existing key keeps its position, a new key is appended.\<close>
  "dict_update d new = fold (\<lambda>(k, v) acc. AList.update k v acc) new d"

section \<open>Frame codec\<close>

definition PUMP_ADDRESS :: int where "PUMP_ADDRESS = 0x81"
definition PC_ADDRESS :: int where "PC_ADDRESS = 0x01"

definition READ_FRONT_PANEL :: int where "READ_FRONT_PANEL = 0x00"
definition WRITE_FRONT_PANEL :: int where "WRITE_FRONT_PANEL = 0x01"
definition READ_SYSTEM_REGISTER :: int where "READ_SYSTEM_REGISTER = 0x02"
definition WRITE_SYSTEM_REGISTER :: int where "WRITE_SYSTEM_REGISTER = 0x03"
definition READ_DISPLAY :: int where "READ_DISPLAY = 0x20"

definition calculate_checksum :: "int list \<Rightarrow> int" where
  \<comment> \<open>\<open>checksum = 0; for byte in packet[2:8]: checksum ^= byte\<close>\<close>
  "calculate_checksum packet =
     fold (\<lambda>byte checksum. checksum XOR byte) (py_slice 2 8 packet) 0"

definition encode_register :: "int \<Rightarrow> int list" where
  "encode_register reg_addr =
     [drop_bit 14 (reg_addr AND 0xC000),
      drop_bit 7 (reg_addr AND 0x3F80),
      reg_addr AND 0x007F]"

definition build_request :: "int \<Rightarrow> int \<Rightarrow> int \<Rightarrow> int list result" where
  "build_request address command register =
     (let reg_bytes = encode_register register;
          val = [0x00, 0x00, 0x00];
          packet = [address, command] @ reg_bytes @ val;
          packet = packet @ [calculate_checksum packet]
      in py_bytes packet)"

definition decode_rego_response :: "int list \<Rightarrow> int result" where
  "decode_rego_response data =
     (if length data < 5 then Inl ValueError
      else
        let b1 = data ! 1 AND 0x7F;
            b2 = data ! 2 AND 0x7F;
            b3 = data ! 3 AND 0x7F;
            raw_value = (push_bit 14 b1 OR push_bit 7 b2) OR b3
        in Inr (if raw_value AND 0x10000 \<noteq> 0 then raw_value - 0x20000 else raw_value))"

definition validate_response_checksum :: "int list \<Rightarrow> bool result" where
  \<comment> \<open>\<open>(response[1] ^ response[2] ^ response[3]) == response[4]\<close>; a short response
      raises IndexError at the first missing index.\<close>
  "validate_response_checksum response =
     (case py_index response 1 of Inl e \<Rightarrow> Inl e | Inr r1 \<Rightarrow>
     (case py_index response 2 of Inl e \<Rightarrow> Inl e | Inr r2 \<Rightarrow>
     (case py_index response 3 of Inl e \<Rightarrow> Inl e | Inr r3 \<Rightarrow>
     (case py_index response 4 of Inl e \<Rightarrow> Inl e | Inr r4 \<Rightarrow>
        Inr (((r1 XOR r2) XOR r3) = r4)))))"

type_synonym codepoints = "int list"

definition py_str :: "string \<Rightarrow> codepoints" where
  \<comment> \<open>a text of the program is the list of its code points (what \<open>ord\<close> gives for each
      character); this is the text with the given ASCII spelling\<close>
  "py_str s = map of_char s"

definition py_isspace :: "int \<Rightarrow> bool" where
  \<comment> \<open>the code points that \<open>str.strip()\<close> removes\<close>
  "py_isspace cp =
     ((9 \<le> cp \<and> cp \<le> 13) \<or> (28 \<le> cp \<and> cp \<le> 32) \<or> cp = 0x85 \<or> cp = 0xA0
      \<or> cp = 0x1680 \<or> (0x2000 \<le> cp \<and> cp \<le> 0x200A) \<or> cp = 0x2028 \<or> cp = 0x2029
      \<or> cp = 0x202F \<or> cp = 0x205F \<or> cp = 0x3000)"

definition py_range :: "nat \<Rightarrow> nat \<Rightarrow> nat \<Rightarrow> nat list" where
  \<comment> \<open>\<open>range(start, stop, step)\<close> for a positive step.\<close>
  "py_range start stop step =
     map (\<lambda>k. start + k * step) [0..<(stop - start + step - 1) div step]"

fun display_loop :: "int list \<Rightarrow> nat list \<Rightarrow> codepoints \<Rightarrow> codepoints" where
  \<comment> \<open>the body of \<open>for i in range(1, 41, 2)\<close>, with \<open>display_text\<close> as accumulator.
      \<open>chr(char_code)\<close> is the code point \<open>char_code\<close> (always within 0..255 here). The
      literal compared first is U+00FF and the one assigned for it is the single
      private-use character U+F0A2 (bytes EF 82 A2 in the source file), not the empty
      text; the second pair is U+00DF and the degree sign U+00B0.\<close>
  "display_loop data [] display_text = display_text"
| "display_loop data (i # rest) display_text =
     (let high_nibble = data ! i AND 0x0F;
          low_nibble = data ! (i + 1) AND 0x0F;
          char_code = push_bit 4 high_nibble OR low_nibble;
          ch = [char_code];
          ch = (if ch = [0xFF] then [0xF0A2] else ch);
          ch = (if ch = [0xDF] then [0xB0] else ch)
      in display_loop data rest (display_text @ ch))"

definition py_strip :: "codepoints \<Rightarrow> codepoints" where
  \<comment> \<open>\<open>str.strip()\<close>: whitespace is removed at both ends\<close>
  "py_strip s = dropWhile py_isspace (rev (dropWhile py_isspace (rev s)))"

definition decode_display_response :: "int list \<Rightarrow> codepoints result" where
  "decode_display_response data =
     (if length data \<noteq> 42 then Inl ValueError
      else case py_index data 0 of Inl e \<Rightarrow> Inl e | Inr d0 \<Rightarrow>
        if d0 \<noteq> PC_ADDRESS then Inl ValueError
        else Inr (py_strip (display_loop data (py_range 1 41 2) [])))"

section \<open>The serial channel, the log and the broker\<close>

text \<open>
  Everything outside the process is one record. The serial port keeps the frames written
  to it (\<open>tx\<close>), the bytes received but not yet read (\<open>inbuf\<close>) and, for each coming
  \<open>read\<close>, the bytes that arrive before its timeout (\<open>arrivals\<close>). A port that is not
  open raises \<open>SerialException\<close> on \<open>write\<close> and \<open>read\<close>. \<open>lock_count\<close> counts the
  acquisitions of \<open>serial_lock\<close>, \<open>logs\<close> is the log, \<open>published\<close> the messages handed
  to the broker. \<open>time.sleep\<close> has no effect on this state.
\<close>

datatype level = DEBUG | INFO | WARNING | ERROR

record world =
  port_open :: bool
  tx :: "int list list"
  inbuf :: "int list"
  arrivals :: "int list list"
  lock_count :: nat
  logs :: "(level \<times> string) list"
  published :: "(string \<times> int) list"

type_synonym 'a io = "world \<Rightarrow> 'a result \<times> world"

definition io_return :: "'a \<Rightarrow> 'a io" where
  "io_return x w = (Inr x, w)"

definition io_raise :: "exn \<Rightarrow> 'a io" where
  "io_raise e w = (Inl e, w)"

definition io_lift :: "'a result \<Rightarrow> 'a io" where
  "io_lift r w = (r, w)"

definition io_bind :: "'a io \<Rightarrow> ('a \<Rightarrow> 'b io) \<Rightarrow> 'b io" where
  "io_bind m f w = (case m w of (Inl e, w') \<Rightarrow> (Inl e, w') | (Inr x, w') \<Rightarrow> f x w')"

definition io_try :: "'a io \<Rightarrow> (exn \<Rightarrow> 'a io) \<Rightarrow> 'a io" where
  \<comment> \<open>\<open>try: body except Exception as e: handler\<close>\<close>
  "io_try body handler w =
     (case body w of (Inl e, w') \<Rightarrow> handler e w' | (Inr x, w') \<Rightarrow> (Inr x, w'))"

fun io_foreach :: "('a \<Rightarrow> unit io) \<Rightarrow> 'a list \<Rightarrow> unit io" where
  "io_foreach f [] = io_return ()"
| "io_foreach f (x # xs) = io_bind (f x) (\<lambda>_. io_foreach f xs)"

definition logging :: "level \<Rightarrow> string \<Rightarrow> unit io" where
  "logging lvl msg w = (Inr (), w\<lparr>logs := logs w @ [(lvl, msg)]\<rparr>)"

definition with_serial_lock :: "'a io \<Rightarrow> 'a io" where
  \<comment> \<open>\<open>with serial_lock:\<close> the lock is taken, the body runs, the lock is released\<close>
  "with_serial_lock body w = body (w\<lparr>lock_count := Suc (lock_count w)\<rparr>)"

definition next_arrival :: "world \<Rightarrow> int list" where
  "next_arrival w = (case arrivals w of [] \<Rightarrow> [] | a # _ \<Rightarrow> a)"

definition ser_write :: "int list \<Rightarrow> nat io" where
  "ser_write data w =
     (if port_open w then (Inr (length data), w\<lparr>tx := tx w @ [data]\<rparr>)
      else (Inl SerialException, w))"

definition ser_read :: "nat \<Rightarrow> int list io" where
  "ser_read n w =
     (if port_open w then
        (let avail = inbuf w @ next_arrival w
         in (Inr (take n avail),
             w\<lparr>inbuf := drop n avail,
               arrivals := (case arrivals w of [] \<Rightarrow> [] | _ # later \<Rightarrow> later)\<rparr>))
      else (Inl SerialException, w))"

definition MQTT_TOPIC_PREFIX :: string where
  "MQTT_TOPIC_PREFIX = ''rego600''"

definition mqtt_publish :: "string \<Rightarrow> int \<Rightarrow> unit io" where
  "mqtt_publish topic payload w =
     (Inr (), w\<lparr>published := published w @ [(MQTT_TOPIC_PREFIX @ ''/'' @ topic, payload)]\<rparr>)"

section \<open>Register access layer\<close>

definition read_register ::
  "int \<Rightarrow> int \<Rightarrow> nat \<Rightarrow> (int list \<Rightarrow> 'a result) \<Rightarrow> 'a option io" where
  "read_register reg_addr command expected_length decode_func =
     io_bind
       (with_serial_lock
          (io_bind (io_lift (build_request PUMP_ADDRESS command reg_addr)) (\<lambda>request.
           io_bind (ser_write request) (\<lambda>_.
           ser_read expected_length))))
       (\<lambda>response.
          if length response \<noteq> expected_length then
            io_bind (logging WARNING ''Incomplete response'') (\<lambda>_. io_return None)
          else
            io_bind (io_lift (py_index response 0)) (\<lambda>r0.
            if r0 \<noteq> PC_ADDRESS then
              io_bind (logging WARNING ''Unexpected response address'') (\<lambda>_. io_return None)
            else
              io_bind (if expected_length = 5
                       then io_lift (validate_response_checksum response)
                       else io_return True) (\<lambda>checksum_ok.
              if expected_length = 5 \<and> \<not> checksum_ok then
                io_bind (logging WARNING ''Checksum mismatch!'') (\<lambda>_. io_return None)
              else
                (case decode_func response of
                   Inr v \<Rightarrow> io_return (Some v)
                 | Inl e \<Rightarrow>
                     if is_ValueError e then
                       io_bind (logging WARNING ''Decode error'') (\<lambda>_. io_return None)
                     else io_raise e))))"

definition read_sensor :: "int \<Rightarrow> int option io" where
  "read_sensor reg_addr = read_register reg_addr READ_SYSTEM_REGISTER 5 decode_rego_response"

definition read_led_state :: "int \<Rightarrow> int option io" where
  "read_led_state reg_addr = read_register reg_addr READ_FRONT_PANEL 5 decode_rego_response"

definition read_display_line :: "int \<Rightarrow> codepoints option io" where
  "read_display_line row_addr = read_register row_addr READ_DISPLAY 42 decode_display_response"

definition read_setting :: "int \<Rightarrow> int option io" where
  "read_setting reg_addr = read_register reg_addr READ_SYSTEM_REGISTER 5 decode_rego_response"

definition write_setting :: "int \<Rightarrow> int \<Rightarrow> bool io" where
  "write_setting reg_addr val =
     io_bind
       (with_serial_lock
          (let reg_bytes = encode_register reg_addr;
               value_bytes = encode_register val;
               packet = [PUMP_ADDRESS, WRITE_SYSTEM_REGISTER] @ reg_bytes @ value_bytes;
               packet = packet @ [calculate_checksum packet]
           in io_bind (io_lift (py_bytes packet)) (\<lambda>frame.
              io_bind (ser_write frame) (\<lambda>_.
              ser_read 1))))
       (\<lambda>response. io_return (length response = 1 \<and> response ! 0 = PC_ADDRESS))"

definition press_key :: "int \<Rightarrow> bool io" where
  "press_key reg_addr =
     io_bind
       (with_serial_lock
          (let reg_bytes = encode_register reg_addr;
               value_bytes = encode_register 1;
               packet = [PUMP_ADDRESS, WRITE_FRONT_PANEL] @ reg_bytes @ value_bytes;
               packet = packet @ [calculate_checksum packet]
           in io_bind (io_lift (py_bytes packet)) (\<lambda>frame.
              io_bind (ser_write frame) (\<lambda>_.
              ser_read 1))))
       (\<lambda>response. io_return (length response = 1 \<and> response ! 0 = PC_ADDRESS))"

definition KEYPANEL_MAP :: "(string \<times> int) list" where
  "KEYPANEL_MAP =
     [(''Key 1'', 0x0009), (''Key 2'', 0x000A), (''Key 3'', 0x000B), (''Wheel'', 0x0044),
      (''Wheel left'', 0xff00), (''Wheel right'', 0xff01)]"

definition wheel_value_bytes :: "int \<Rightarrow> int list" where
  \<comment> \<open>the list literal of \<open>turn_wheel\<close>, then the assignment to \<open>value_bytes[2]\<close>;
      \<open>(value & 0x0000FF) >> 0 & 0x7F\<close> parses as \<open>((value & 0xFF) >> 0) & 0x7F\<close>\<close>
  "wheel_value_bytes val =
     (let value_bytes =
            [drop_bit 18 (val AND 0xC0000),
             drop_bit 11 (val AND 0x3F800),
             drop_bit 4 (val AND 0x007F00)]
      in value_bytes[2 := drop_bit 0 (val AND 0x0000FF) AND 0x7F])"

definition turn_wheel :: "string \<Rightarrow> bool io" where
  "turn_wheel direction =
     io_bind (io_lift (py_getitem KEYPANEL_MAP ''Wheel'')) (\<lambda>wheel.
       let reg_bytes = encode_register wheel;
           send = (\<lambda>val.
             let value_bytes = wheel_value_bytes val
             in io_bind
                  (with_serial_lock
                     (let packet = [PUMP_ADDRESS, WRITE_FRONT_PANEL] @ reg_bytes @ value_bytes;
                          packet = packet @ [calculate_checksum packet]
                      in io_bind (io_lift (py_bytes packet)) (\<lambda>frame.
                         io_bind (ser_write frame) (\<lambda>_.
                         ser_read 1))))
                  (\<lambda>response.
                     io_return (length response = 1 \<and> response ! 0 = PC_ADDRESS)))
       in if direction = ''left'' then send 0x1FFFFF
          else if direction = ''right'' then send 0x000001
          else
            io_bind (logging ERROR ''Invalid direction for wheel'') (\<lambda>_. io_return False))"

section \<open>Inbound commands\<close>

text \<open>
  An MQTT message carries its topic as text and its payload as bytes. The handler first
  decodes the payload (\<open>msg.payload.decode()\<close>, strict UTF-8, which raises
  \<open>UnicodeDecodeError\<close>) to a sequence of code points and then applies \<open>int(...)\<close> to it.
  \<open>int\<close> on text is a built-in of the language; the handler is parametrised by it
  (\<open>py_int\<close>), so every statement below holds for whatever it accepts.
\<close>

record mqtt_msg =
  topic :: string
  payload :: "int list"

definition utf8_cont :: "int \<Rightarrow> bool" where
  "utf8_cont b = (0x80 \<le> b \<and> b \<le> 0xBF)"

definition utf8_tail :: "int \<Rightarrow> nat" where
  "utf8_tail b = nat (b AND 0x3F)"

fun utf8_decode :: "int list \<Rightarrow> nat list result" where
  "utf8_decode [] = Inr []"
| "utf8_decode (b # bs) =
     (if 0 \<le> b \<and> b < 0x80 then
        (case utf8_decode bs of Inl e \<Rightarrow> Inl e | Inr cps \<Rightarrow> Inr (nat b # cps))
      else if 0xC2 \<le> b \<and> b \<le> 0xDF then
        (case bs of
           c1 # rest \<Rightarrow>
             if utf8_cont c1 then
               (case utf8_decode rest of Inl e \<Rightarrow> Inl e
                | Inr cps \<Rightarrow> Inr ((nat (b AND 0x1F) * 64 + utf8_tail c1) # cps))
             else Inl UnicodeDecodeError
         | _ \<Rightarrow> Inl UnicodeDecodeError)
      else if 0xE0 \<le> b \<and> b \<le> 0xEF then
        (case bs of
           c1 # c2 # rest \<Rightarrow>
             if utf8_cont c1 \<and> utf8_cont c2
                \<and> (b = 0xE0 \<longrightarrow> 0xA0 \<le> c1) \<and> (b = 0xED \<longrightarrow> c1 \<le> 0x9F) then
               (case utf8_decode rest of Inl e \<Rightarrow> Inl e
                | Inr cps \<Rightarrow>
                    Inr (((nat (b AND 0x0F) * 64 + utf8_tail c1) * 64 + utf8_tail c2) # cps))
             else Inl UnicodeDecodeError
         | _ \<Rightarrow> Inl UnicodeDecodeError)
      else if 0xF0 \<le> b \<and> b \<le> 0xF4 then
        (case bs of
           c1 # c2 # c3 # rest \<Rightarrow>
             if utf8_cont c1 \<and> utf8_cont c2 \<and> utf8_cont c3
                \<and> (b = 0xF0 \<longrightarrow> 0x90 \<le> c1) \<and> (b = 0xF4 \<longrightarrow> c1 \<le> 0x8F) then
               (case utf8_decode rest of Inl e \<Rightarrow> Inl e
                | Inr cps \<Rightarrow>
                    Inr ((((nat (b AND 0x07) * 64 + utf8_tail c1) * 64 + utf8_tail c2) * 64
                          + utf8_tail c3) # cps))
             else Inl UnicodeDecodeError
         | _ \<Rightarrow> Inl UnicodeDecodeError)
      else Inl UnicodeDecodeError)"

definition DEGREE :: string where
  \<comment> \<open>the degree sign U+00B0 of the register names\<close>
  "DEGREE = [CHR 0xB0]"

definition SETTINGS_MAP :: "(string \<times> int) list" where
  "SETTINGS_MAP =
     [(''Heat curve'', 0x0000),
      (''Heat curve fine adj.'', 0x0001),
      (''Indoor temp setting'', 0x0021),
      (''Curve infl. by in-temp.'', 0x0022),
      (''Heat curve coupling diff.'', 0x0002),
      (''Adjust curve at +20'' @ DEGREE @ '' out'', 0x001E),
      (''Adjust curve at +15'' @ DEGREE @ '' out'', 0x001C),
      (''Adjust curve at +10'' @ DEGREE @ '' out'', 0x001A),
      (''Adjust curve at +5'' @ DEGREE @ '' out'', 0x0018),
      (''Adjust curve at 0'' @ DEGREE @ '' out'', 0x0016),
      (''Adjust curve at -5'' @ DEGREE @ '' out'', 0x0014),
      (''Adjust curve at -10'' @ DEGREE @ '' out'', 0x0012),
      (''Adjust curve at -15'' @ DEGREE @ '' out'', 0x0010),
      (''Adjust curve at -20'' @ DEGREE @ '' out'', 0x000E),
      (''Adjust curve at -25'' @ DEGREE @ '' out'', 0x000C),
      (''Adjust curve at -30'' @ DEGREE @ '' out'', 0x000A),
      (''Adjust curve at -35'' @ DEGREE @ '' out'', 0x0008)]"

definition setting_topics :: "(string \<times> string) list" where
  "setting_topics =
     [(''indoor_temp_setting'', ''Indoor temp setting''),
      (''heat_curve'', ''Heat curve''),
      (''heat_curve_fine_adj'', ''Heat curve fine adj.''),
      (''curve_infl_by_in_temp'', ''Curve infl. by in-temp.''),
      (''heat_curve_coupling_diff'', ''Heat curve coupling diff.''),
      (''adjust_curve_at_20_out'', ''Adjust curve at +20'' @ DEGREE @ '' out''),
      (''adjust_curve_at_15_out'', ''Adjust curve at +15'' @ DEGREE @ '' out''),
      (''adjust_curve_at_10_out'', ''Adjust curve at +10'' @ DEGREE @ '' out''),
      (''adjust_curve_at_5_out'', ''Adjust curve at +5'' @ DEGREE @ '' out''),
      (''adjust_curve_at_0_out'', ''Adjust curve at 0'' @ DEGREE @ '' out''),
      (''adjust_curve_at_-5_out'', ''Adjust curve at -5'' @ DEGREE @ '' out''),
      (''adjust_curve_at_-10_out'', ''Adjust curve at -10'' @ DEGREE @ '' out''),
      (''adjust_curve_at_-15_out'', ''Adjust curve at -15'' @ DEGREE @ '' out''),
      (''adjust_curve_at_-20_out'', ''Adjust curve at -20'' @ DEGREE @ '' out''),
      (''adjust_curve_at_-25_out'', ''Adjust curve at -25'' @ DEGREE @ '' out''),
      (''adjust_curve_at_-30_out'', ''Adjust curve at -30'' @ DEGREE @ '' out''),
      (''adjust_curve_at_-35_out'', ''Adjust curve at -35'' @ DEGREE @ '' out'')]"

definition key_topics :: "(string \<times> string) list" where
  "key_topics =
     [(''1'', ''Key 1''), (''2'', ''Key 2''), (''3'', ''Key 3''),
      (''wheel_left'', ''left''), (''wheel_right'', ''right'')]"

fun py_in :: "string \<Rightarrow> string \<Rightarrow> bool" where
  \<comment> \<open>\<open>sub in s\<close> on text: \<open>sub\<close> occurs as a contiguous part of \<open>s\<close>\<close>
  "py_in sub [] = (sub = [])"
| "py_in sub (ch # s) = (take (length sub) (ch # s) = sub \<or> py_in sub s)"

fun setting_loop :: "(string \<times> string) list \<Rightarrow> string \<Rightarrow> int \<Rightarrow> bool io" where
  \<comment> \<open>\<open>for key, reg_name in setting_topics.items()\<close>; the result tells whether the body
      has returned from the handler\<close>
  "setting_loop [] tpc pl = io_return False"
| "setting_loop ((key, reg_name) # rest) tpc pl =
     (if tpc = MQTT_TOPIC_PREFIX @ ''/set/setting/'' @ key then
        io_bind (io_lift (py_getitem SETTINGS_MAP reg_name)) (\<lambda>reg_addr.
        io_bind (write_setting reg_addr pl) (\<lambda>_.
        io_bind (logging INFO (''Updated setting '' @ reg_name)) (\<lambda>_.
        io_return True)))
      else setting_loop rest tpc pl)"

fun key_loop :: "(string \<times> string) list \<Rightarrow> string \<Rightarrow> bool io" where
  \<comment> \<open>\<open>for key, action in key_topics.items()\<close>, with the same result convention\<close>
  "key_loop [] tpc = io_return False"
| "key_loop ((key, action) # rest) tpc =
     (if tpc = MQTT_TOPIC_PREFIX @ ''/set/key/'' @ key then
        io_bind
          (if py_in ''wheel'' key then
             io_bind (turn_wheel action) (\<lambda>_.
             logging INFO (''Turned wheel '' @ action))
           else
             io_bind (io_lift (py_getitem KEYPANEL_MAP action)) (\<lambda>reg_addr.
             io_bind (press_key reg_addr) (\<lambda>_.
             logging INFO (''Pressed '' @ action))))
          (\<lambda>_. io_return True)
      else key_loop rest tpc)"

definition on_mqtt_message :: "(nat list \<Rightarrow> int result) \<Rightarrow> mqtt_msg \<Rightarrow> unit io" where
  "on_mqtt_message py_int msg =
     io_bind (io_lift (utf8_decode (payload msg))) (\<lambda>payload_raw.
       case py_int payload_raw of
         Inl e \<Rightarrow>
           if is_ValueError e then logging WARNING ''Ignores invalid payload''
           else io_raise e
       | Inr pl \<Rightarrow>
           io_bind (setting_loop setting_topics (topic msg) pl) (\<lambda>returned.
           if returned then io_return ()
           else
             io_bind (key_loop key_topics (topic msg)) (\<lambda>returned.
             if returned then io_return ()
             else logging WARNING ''Unexpected MQTT-topic'')))"

section \<open>Instantaneous power\<close>

definition POWER_VALUES :: "int \<Rightarrow> (string \<times> int) list" where
  \<comment> \<open>the module-level table after the updates selected by \<open>int(PUMP_SIZE_KW)\<close>\<close>
  "POWER_VALUES pump_size_kw =
     (let pv = [(''compressor'', 1500), (''add_heat_3kw'', 3000), (''add_heat_6kw'', 6000),
                (''pump_p1'', 55), (''pump_p2'', 46), (''pump_p3'', 106)];
          pv = (if pump_size_kw = 4 then
                  dict_update pv [(''compressor'', 1100), (''pump_p1'', 0),
                                  (''pump_p2'', 35), (''pump_p3'', 70)]
                else pv);
          pv = (if pump_size_kw = 7 then dict_update pv [(''compressor'', 1850)] else pv);
          pv = (if pump_size_kw = 9 then dict_update pv [(''compressor'', 2500)] else pv);
          pv = (if pump_size_kw = 11 then dict_update pv [(''compressor'', 4600)] else pv);
          pv = (if pump_size_kw = 14 then
                  dict_update pv [(''compressor'', 4100), (''add_heat_3kw'', 5250),
                                  (''add_heat_6kw'', 10500)]
                else pv);
          pv = (if pump_size_kw = 16 then
                  dict_update pv [(''compressor'', 4600), (''add_heat_3kw'', 5250),
                                  (''add_heat_6kw'', 10500), (''pump_p1'', 90),
                                  (''pump_p2'', 165)]
                else pv)
      in pv)"

definition BINARY_SENSOR_MAP :: "int \<Rightarrow> (string \<times> int) list" where
  "BINARY_SENSOR_MAP pump_size_kw =
     (let m = [(''Three-way Valve'', 0x0205), (''Add Heat Percentage'', 0x006C),
               (''Radiator Pump P1'', 0x0203), (''Heat carrier pump P2'', 0x0204),
               (''Ground loop pump P3'', 0x01FD), (''Compressor'', 0x01FE),
               (''Alarm'', 0x0206)]
      in if pump_size_kw = 14 \<or> pump_size_kw = 16 then
           dict_update m [(''Add heat 5kw'', 0x01FF), (''Add heat 10kw'', 0x0200)]
         else
           dict_update m [(''Add heat 3kw'', 0x01FF), (''Add heat 6kw'', 0x0200)])"

definition sensor_is_on :: "int \<Rightarrow> string \<Rightarrow> bool io" where
  \<comment> \<open>\<open>read_sensor(ser, BINARY_SENSOR_MAP[name]) == 1\<close>: the subscript is evaluated
      before the call\<close>
  "sensor_is_on pump_size_kw name =
     io_bind (io_lift (py_getitem (BINARY_SENSOR_MAP pump_size_kw) name)) (\<lambda>reg.
     io_bind (read_sensor reg) (\<lambda>v.
     io_return (v = Some 1)))"

definition watts_if :: "int \<Rightarrow> string \<Rightarrow> bool \<Rightarrow> int io" where
  \<comment> \<open>\<open>POWER_VALUES[name] if on else 0\<close>\<close>
  "watts_if pump_size_kw name on =
     (if on then io_lift (py_getitem (POWER_VALUES pump_size_kw) name) else io_return 0)"

definition publish_power_sensors :: "int \<Rightarrow> int io" where
  "publish_power_sensors pump_size_kw =
     io_try
       (io_bind (sensor_is_on pump_size_kw ''Compressor'') (\<lambda>compressor_on.
        io_bind (sensor_is_on pump_size_kw ''Add heat 3kw'') (\<lambda>add3_on.
        io_bind (sensor_is_on pump_size_kw ''Add heat 6kw'') (\<lambda>add6_on.
        io_bind (sensor_is_on pump_size_kw ''Radiator Pump P1'') (\<lambda>p1_on.
        io_bind (sensor_is_on pump_size_kw ''Heat carrier pump P2'') (\<lambda>p2_on.
        io_bind (sensor_is_on pump_size_kw ''Ground loop pump P3'') (\<lambda>p3_on.
        io_bind (watts_if pump_size_kw ''compressor'' compressor_on) (\<lambda>w_compressor.
        io_bind (watts_if pump_size_kw ''add_heat_3kw'' add3_on) (\<lambda>w_add3.
        io_bind (watts_if pump_size_kw ''add_heat_6kw'' add6_on) (\<lambda>w_add6.
        io_bind (watts_if pump_size_kw ''pump_p1'' p1_on) (\<lambda>w_p1.
        io_bind (watts_if pump_size_kw ''pump_p2'' p2_on) (\<lambda>w_p2.
        io_bind (watts_if pump_size_kw ''pump_p3'' p3_on) (\<lambda>w_p3.
          let power_map = [(''compressor'', w_compressor), (''add_heat_3kw'', w_add3),
                           (''add_heat_6kw'', w_add6), (''pump_p1'', w_p1),
                           (''pump_p2'', w_p2), (''pump_p3'', w_p3)];
              total = sum_list (map snd power_map);
              power_map = AList.update ''total'' total power_map
          in io_bind (io_foreach (\<lambda>(name, val). mqtt_publish (''power/'' @ name) val)
                        power_map) (\<lambda>_.
             io_bind (logging DEBUG ''Energy sensors updated'') (\<lambda>_.
             io_return total)))))))))))))))
       (\<lambda>e.
          io_bind (logging WARNING ''Error in calculating power'') (\<lambda>_.
          io_return 0))"

section \<open>Vocabulary of the statements\<close>

definition seven_bit :: "int \<Rightarrow> bool" where
  \<comment> \<open>a byte whose high bit is clear\<close>
  "seven_bit b = (0 \<le> b \<and> b \<le> 0x7F)"

definition groups_clean :: "int list \<Rightarrow> bool" where
  \<comment> \<open>a 9-byte request frame whose register and value groups (positions 2..7) are 7-bit clean\<close>
  "groups_clean frame = (length frame = 9 \<and> list_all seven_bit (py_slice 2 8 frame))"

definition pending_response :: "nat \<Rightarrow> world \<Rightarrow> int list" where
  \<comment> \<open>the bytes that the next \<open>ser.read(n)\<close> returns on an open port\<close>
  "pending_response n w = take n (inbuf w @ next_arrival w)"

definition bad_response :: "nat \<Rightarrow> (int list \<Rightarrow> 'a result) \<Rightarrow> int list \<Rightarrow> bool" where
  \<comment> \<open>the four failures of a response to a read of \<open>expected_length\<close> bytes: wrong length,
      wrong echo address, a 5-byte frame with a wrong checksum, a decoder that raises
      \<open>ValueError\<close>\<close>
  "bad_response expected_length decode_func response =
     (length response \<noteq> expected_length
      \<or> (response \<noteq> [] \<and> response ! 0 \<noteq> PC_ADDRESS)
      \<or> (length response = 5
          \<and> ((response ! 1 XOR response ! 2) XOR response ! 3) \<noteq> response ! 4)
      \<or> (case decode_func response of Inl e \<Rightarrow> is_ValueError e | Inr _ \<Rightarrow> False))"

definition claimed_wheel_bytes :: "int \<Rightarrow> int list" where
  \<comment> \<open>the value bytes of a wheel turn as the specification words them: shifts by 18, 11
      and 4, each group masked to 7 bits\<close>
  "claimed_wheel_bytes v =
     [drop_bit 18 v AND 0x7F, drop_bit 11 v AND 0x7F, drop_bit 4 v AND 0x7F]"

definition glyph_of :: "int \<Rightarrow> int \<Rightarrow> codepoints" where
  \<comment> \<open>the character of one nibble pair: the low nibbles of two bytes give its code; the
      filler glyph (code 0xFF) becomes the private-use character U+F0A2, the glyph of code
      0xDF the degree sign U+00B0\<close>
  "glyph_of hi lo =
     (let code = push_bit 4 (hi AND 0x0F) OR (lo AND 0x0F)
      in if code = 0xFF then [0xF0A2] else if code = 0xDF then [0xB0] else [code])"

definition display_chars :: "int list \<Rightarrow> codepoints" where
  \<comment> \<open>one character for each of the 20 nibble pairs at offsets 1..40\<close>
  "display_chars data =
     concat (map (\<lambda>k. glyph_of (data ! (2 * k + 1)) (data ! (2 * k + 2))) [0..<20])"

definition trimmed_both_ends :: "codepoints \<Rightarrow> codepoints \<Rightarrow> bool" where
  \<comment> \<open>\<open>txt\<close> is \<open>chars\<close> without its leading and trailing whitespace: it neither starts
      nor ends with whitespace, it sits in \<open>chars\<close> at some offset, and all that comes
      before and after it there is whitespace\<close>
  "trimmed_both_ends chars txt =
     ((txt = [] \<or> (\<not> py_isspace (hd txt) \<and> \<not> py_isspace (last txt)))
      \<and> list_ex (\<lambda>n. list_all py_isspace (take n chars)
                      \<and> take (length txt) (drop n chars) = txt
                      \<and> list_all py_isspace (drop (n + length txt) chars))
            [0..<Suc (length chars)])"

definition claimed_glyph_of :: "int \<Rightarrow> int \<Rightarrow> codepoints" where
  \<comment> \<open>the character of one nibble pair as the specification words it: the filler glyph
      stands for the empty text\<close>
  "claimed_glyph_of hi lo =
     (let code = push_bit 4 (hi AND 0x0F) OR (lo AND 0x0F)
      in if code = 0xFF then [] else if code = 0xDF then [0xB0] else [code])"

definition py_rstrip :: "codepoints \<Rightarrow> codepoints" where
  \<comment> \<open>trimming of trailing whitespace only\<close>
  "py_rstrip s = rev (dropWhile py_isspace (rev s))"

definition claimed_display_text :: "int list \<Rightarrow> codepoints" where
  \<comment> \<open>the decoded text as the specification words it: one character per nibble pair,
      filler dropped, trailing whitespace trimmed\<close>
  "claimed_display_text data =
     py_rstrip
       (concat (map (\<lambda>k. claimed_glyph_of (data ! (2 * k + 1)) (data ! (2 * k + 2)))
                  [0..<20]))"

definition low_nibbles :: "int list \<Rightarrow> int list" where
  \<comment> \<open>the 40 nibbles that a display response carries at offsets 1..40\<close>
  "low_nibbles data = map (\<lambda>b. b AND 0x0F) (py_slice 1 41 data)"

definition chars_of_nibbles :: "int list \<Rightarrow> codepoints" where
  "chars_of_nibbles ns = concat (map (\<lambda>k. glyph_of (ns ! (2 * k)) (ns ! (2 * k + 1))) [0..<20])"

definition display_frame :: "int list \<Rightarrow> int list" where
  \<comment> \<open>a display response that carries the given 40 nibbles, with a zero last byte\<close>
  "display_frame ns = PC_ADDRESS # ns @ [0x00]"

definition hello_nibbles :: "int list" where
  \<comment> \<open>the nibbles of the ASCII text HELLO (48 45 4C 4C 4F)\<close>
  "hello_nibbles = [0x4, 0x8, 0x4, 0x5, 0x4, 0xC, 0x4, 0xC, 0x4, 0xF]"

definition spaced_nibbles :: "int list" where
  \<comment> \<open>the nibbles of a space, the letter A and 18 spaces (20 41 20 ... 20)\<close>
  "spaced_nibbles = [0x2, 0x0, 0x4, 0x1] @ concat (replicate 18 [0x2, 0x0])"

definition keeps_published :: "'a io \<Rightarrow> bool" where
  \<comment> \<open>an action that hands nothing to the broker\<close>
  "keeps_published m = (\<forall>w. published (snd (m w)) = published w)"

definition idle_port :: world where
  \<comment> \<open>an open port on which nothing arrives\<close>
  "idle_port =
     \<lparr>port_open = True, tx = [], inbuf = [], arrivals = [], lock_count = 0, logs = [],
      published = []\<rparr>"

definition answering :: "int list list \<Rightarrow> world" where
  \<comment> \<open>an open port on which the given replies arrive, one for each read\<close>
  "answering replies = idle_port\<lparr>arrivals := replies\<rparr>"

section \<open>Properties of the frame codec\<close>

subsection \<open>The three 7-bit groups of a register address\<close>

lemma group_low: "a AND 0x7F = take_bit 7 (a::int)"
  by (simp add: take_bit_eq_mask mask_eq_exp_minus_1)

lemma group_mid: "drop_bit 7 (a AND 0x3F80) = take_bit 7 (drop_bit 7 (a::int))"
  by (simp add: take_bit_eq_mask mask_eq_exp_minus_1)

lemma group_high: "drop_bit 14 (a AND 0xC000) = take_bit 2 (drop_bit 14 (a::int))"
  by (simp add: take_bit_eq_mask mask_eq_exp_minus_1)

lemma encode_register_groups:
  "encode_register a =
     [take_bit 2 (drop_bit 14 a), take_bit 7 (drop_bit 7 a), take_bit 7 a]"
  unfolding encode_register_def group_high group_mid group_low by (rule refl)

lemma regroup:
  "push_bit 14 (take_bit 7 (take_bit 2 (drop_bit 14 a)))
     OR push_bit 7 (take_bit 7 (take_bit 7 (drop_bit 7 a)))
     OR take_bit 7 (take_bit 7 a) = take_bit 16 (a::int)"
proof (rule bit_eqI)
  fix n
  show "bit (push_bit 14 (take_bit 7 (take_bit 2 (drop_bit 14 a)))
           OR push_bit 7 (take_bit 7 (take_bit 7 (drop_bit 7 a)))
           OR take_bit 7 (take_bit 7 a)) n = bit (take_bit 16 a) n"
    by (cases "n < 7"; cases "n < 14"; cases "n < 16") (auto simp add: bit_simps)
qed

lemma bit16_clear: "take_bit 16 (a::int) AND 0x10000 = 0"
proof -
  have "take_bit 16 a AND 2 ^ 16 = 0"
    unfolding and_exp_eq_0_iff_not_bit by (simp add: bit_take_bit_iff)
  then show ?thesis by simp
qed

lemma decode_encode_16bit:
  "decode_rego_response (h # encode_register a @ [c]) = Inr (take_bit 16 a)"
proof -
  let ?d = "h # encode_register a @ [c]"
  have len: "\<not> length ?d < 5"
    by (simp add: encode_register_def)
  have n1: "?d ! 1 = take_bit 2 (drop_bit 14 a)"
    and n2: "?d ! 2 = take_bit 7 (drop_bit 7 a)"
    and n3: "?d ! 3 = take_bit 7 a"
    by (simp_all add: encode_register_groups)
  have raw: "(push_bit 14 (?d ! 1 AND 0x7F) OR push_bit 7 (?d ! 2 AND 0x7F)) OR (?d ! 3 AND 0x7F)
               = take_bit 16 a"
    unfolding n1 n2 n3 group_low or.assoc by (rule regroup)
  show ?thesis
    unfolding decode_rego_response_def Let_def raw
    using len by (simp add: bit16_clear)
qed

text \<open>
  C1. For every register address in the range 0..0x3FFF, a response frame that carries
  the three bytes of \<open>encode_register addr\<close> at positions 1..3 (whatever its address
  byte and checksum byte are) is decoded by \<open>decode_rego_response\<close> to \<open>addr\<close> again.
\<close>

theorem encode_register_roundtrip:
  assumes "0 \<le> addr" and "addr \<le> 0x3FFF"
  shows "decode_rego_response (h # encode_register addr @ [c]) = Inr addr"
proof -
  from assms have "addr < 2 ^ 16" by simp
  with assms(1) have "take_bit 16 addr = addr"
    by (simp add: take_bit_int_eq_self)
  then show ?thesis by (simp add: decode_encode_16bit)
qed

theorem encode_register_roundtrip_witness:
  "(0::int) \<le> 0x0209 \<and> (0x0209::int) \<le> 0x3FFF
   \<and> encode_register 0x0209 = [0, 4, 9]
   \<and> decode_rego_response (0x01 # encode_register 0x0209 @ [0x0D]) = Inr 0x0209"
  using encode_register_roundtrip [of "0x0209" "0x01" "0x0D"]
  by (simp add: encode_register_def)

subsection \<open>Seven-bit groups and the checksum\<close>

lemmas io_defs = io_return_def io_raise_def io_lift_def io_bind_def io_try_def logging_def
  with_serial_lock_def ser_write_def ser_read_def

lemma xor_seven_bit: "seven_bit x \<Longrightarrow> seven_bit y \<Longrightarrow> seven_bit (x XOR y)"
  using XOR_upper [of x 7 y] by (simp add: seven_bit_def)

lemma fold_xor_seven_bit:
  "list_all seven_bit bs \<Longrightarrow> seven_bit acc \<Longrightarrow>
   seven_bit (fold (\<lambda>byte checksum. checksum XOR byte) bs acc)"
  by (induction bs arbitrary: acc) (simp_all add: xor_seven_bit)

lemma checksum_seven_bit:
  "list_all seven_bit (py_slice 2 8 packet) \<Longrightarrow> seven_bit (calculate_checksum packet)"
  unfolding calculate_checksum_def by (rule fold_xor_seven_bit) (simp_all add: seven_bit_def)

lemma encode_register_seven_bit:
  "\<exists>g0 g1 g2. encode_register r = [g0, g1, g2]
     \<and> 0 \<le> g0 \<and> g0 \<le> 0x03 \<and> 0 \<le> g1 \<and> g1 \<le> 0x7F \<and> 0 \<le> g2 \<and> g2 \<le> 0x7F"
proof -
  have "take_bit 2 (drop_bit 14 r) < 2 ^ 2" "take_bit 7 (drop_bit 7 r) < 2 ^ 7"
    "take_bit 7 r < 2 ^ 7"
    by (rule take_bit_int_less_exp)+
  then show ?thesis
    unfolding encode_register_groups by simp
qed

lemma encode_register_clean: "list_all seven_bit (encode_register r) \<and> length (encode_register r) = 3"
  using encode_register_seven_bit [of r] by (auto simp add: seven_bit_def)

lemma frame_bytes:
  assumes "0 \<le> a" "a < 256" "0 \<le> c" "c < 256"
    and "list_all seven_bit gs" "length gs = 3" "list_all seven_bit vs" "length vs = 3"
  shows "py_bytes (([a, c] @ gs @ vs) @ [calculate_checksum ([a, c] @ gs @ vs)])
           = Inr (([a, c] @ gs @ vs) @ [calculate_checksum ([a, c] @ gs @ vs)])"
    and "groups_clean (([a, c] @ gs @ vs) @ [calculate_checksum ([a, c] @ gs @ vs)])"
proof -
  have sl: "py_slice 2 8 ([a, c] @ gs @ vs) = gs @ vs"
    using assms by (simp add: py_slice_def)
  then have ck: "seven_bit (calculate_checksum ([a, c] @ gs @ vs))"
    using assms by (intro checksum_seven_bit) simp
  have wide: "list_all (\<lambda>b. 0 \<le> b \<and> b < 256) xs" if "list_all seven_bit xs" for xs
    using that by (induction xs) (simp_all add: seven_bit_def)
  show "py_bytes (([a, c] @ gs @ vs) @ [calculate_checksum ([a, c] @ gs @ vs)])
           = Inr (([a, c] @ gs @ vs) @ [calculate_checksum ([a, c] @ gs @ vs)])"
    using assms ck wide [of gs] wide [of vs] by (simp add: py_bytes_def seven_bit_def)
  have "py_slice 2 8 (([a, c] @ gs @ vs) @ [calculate_checksum ([a, c] @ gs @ vs)]) = gs @ vs"
    using assms by (simp add: py_slice_def)
  then show "groups_clean (([a, c] @ gs @ vs) @ [calculate_checksum ([a, c] @ gs @ vs)])"
    using assms by (simp add: groups_clean_def)
qed

lemma pump_byte: "0 \<le> PUMP_ADDRESS" "PUMP_ADDRESS < 256"
  by (simp_all add: PUMP_ADDRESS_def)



lemma build_request_frame:
  assumes "0 \<le> a" "a < 256" "0 \<le> c" "c < 256"
  shows "\<exists>frame. build_request a c r = Inr frame \<and> groups_clean frame"
proof -
  let ?p = "[a, c] @ encode_register r @ [0x00, 0x00, 0x00]"
  have z: "list_all seven_bit [0x00, 0x00, 0x00]" "length [0x00, 0x00, 0x00::int] = 3"
    by (simp_all add: seven_bit_def)
  have eq: "py_bytes (?p @ [calculate_checksum ?p]) = Inr (?p @ [calculate_checksum ?p])"
    and cl: "groups_clean (?p @ [calculate_checksum ?p])"
    using frame_bytes [OF assms, of "encode_register r" "[0x00, 0x00, 0x00]"]
      encode_register_clean z by blast+
  have "build_request a c r = Inr (?p @ [calculate_checksum ?p])"
    unfolding build_request_def Let_def eq by (rule refl)
  with cl show ?thesis by blast
qed

lemma build_request_shape:
  assumes "build_request a c r = Inr frame"
  shows "length frame = 9 \<and> py_slice 2 5 frame = encode_register r
         \<and> py_slice 5 8 frame = [0, 0, 0] \<and> frame ! 8 = calculate_checksum frame"
proof -
  obtain g0 g1 g2 where g: "encode_register r = [g0, g1, g2]"
    using encode_register_seven_bit by blast
  from assms show ?thesis
    by (auto simp add: build_request_def Let_def g py_bytes_def py_slice_def
        calculate_checksum_def split: if_splits)
qed




subsection \<open>The checksum is the XOR of positions 2..7\<close>

lemma nine: "length (p::int list) = 9 \<Longrightarrow> \<exists>a b c d e f g h i. p = [a,b,c,d,e,f,g,h,i]"
  by (auto simp: numeral_eq_Suc length_Suc_conv)

lemma checksum_nine:
  assumes "length p = 9"
  shows "calculate_checksum p = ((((p ! 2 XOR p ! 3) XOR p ! 4) XOR p ! 5) XOR p ! 6) XOR p ! 7"
proof -
  from assms obtain a b c d e f g h i where "p = [a,b,c,d,e,f,g,h,i]" using nine by blast
  then show ?thesis by (simp add: calculate_checksum_def py_slice_def)
qed

lemma checksum_perm:
  assumes "mset (py_slice 2 8 q) = mset (py_slice 2 8 p)"
  shows "calculate_checksum q = calculate_checksum p"
proof -
  have "fold (\<lambda>byte checksum. checksum XOR byte) (py_slice 2 8 q) = fold (\<lambda>byte checksum. checksum XOR byte) (py_slice 2 8 p)"
    by (rule fold_multiset_equiv) (auto simp add: fun_eq_iff ac_simps assms)
  then show ?thesis by (simp add: calculate_checksum_def)
qed

text \<open>
  C7. The checksum of a 9-byte packet is the XOR of its bytes at positions 2..7; two
  packets whose bytes at these positions are permutations of each other have the same
  checksum; \<open>build_request\<close> returns a frame for every address and command byte, and the
  frame it returns has 9 bytes, carries the register groups and three zero value bytes,
  and ends with the XOR of these six bytes.
\<close>

theorem checksum_is_xor:
  "(length p = 9 \<longrightarrow>
      calculate_checksum p = ((((p ! 2 XOR p ! 3) XOR p ! 4) XOR p ! 5) XOR p ! 6) XOR p ! 7)
   \<and> (mset (py_slice 2 8 q) = mset (py_slice 2 8 p) \<longrightarrow>
        calculate_checksum q = calculate_checksum p)
   \<and> (0 \<le> a \<and> a < 256 \<and> 0 \<le> c \<and> c < 256 \<longrightarrow> (\<exists>frame. build_request a c r = Inr frame))
   \<and> (build_request a c r = Inr frame \<longrightarrow>
        length frame = 9 \<and> py_slice 2 5 frame = encode_register r
        \<and> py_slice 5 8 frame = [0, 0, 0]
        \<and> frame ! 8 = ((((frame ! 2 XOR frame ! 3) XOR frame ! 4) XOR frame ! 5)
                          XOR frame ! 6) XOR frame ! 7)"
proof (intro conjI impI)
  assume "length p = 9"
  then show "calculate_checksum p = ((((p ! 2 XOR p ! 3) XOR p ! 4) XOR p ! 5) XOR p ! 6) XOR p ! 7"
    by (rule checksum_nine)
next
  assume "mset (py_slice 2 8 q) = mset (py_slice 2 8 p)"
  then show "calculate_checksum q = calculate_checksum p" by (rule checksum_perm)
next
  assume "0 \<le> a \<and> a < 256 \<and> 0 \<le> c \<and> c < 256"
  then show "\<exists>frame. build_request a c r = Inr frame"
    using build_request_frame [of a c r] by blast
next
  assume b: "build_request a c r = Inr frame"
  then show "length frame = 9" "py_slice 2 5 frame = encode_register r"
    "py_slice 5 8 frame = [0, 0, 0]"
    using build_request_shape by blast+
  from b have "length frame = 9" "frame ! 8 = calculate_checksum frame"
    using build_request_shape by blast+
  then show "frame ! 8 = ((((frame ! 2 XOR frame ! 3) XOR frame ! 4) XOR frame ! 5)
                          XOR frame ! 6) XOR frame ! 7"
    by (simp add: checksum_nine)
qed

theorem checksum_is_xor_witness:
  "length [0x81, 0x02, 0x00, 0x04, 0x09, 0x00, 0x00, 0x00, 0x0D :: int] = 9
   \<and> calculate_checksum [0x81, 0x02, 0x00, 0x04, 0x09, 0x00, 0x00, 0x00, 0x0D] = 0x0D
   \<and> mset (py_slice 2 8 [0x81, 0x02, 0x09, 0x00, 0x00, 0x04, 0x00, 0x00, 0x0D :: int])
       = mset (py_slice 2 8 [0x81, 0x02, 0x00, 0x04, 0x09, 0x00, 0x00, 0x00, 0x0D])
   \<and> calculate_checksum [0x81, 0x02, 0x09, 0x00, 0x00, 0x04, 0x00, 0x00, 0x0D] = 0x0D
   \<and> build_request 0x81 0x02 0x0209 = Inr [0x81, 0x02, 0x00, 0x04, 0x09, 0x00, 0x00, 0x00, 0x0D]"
  using checksum_is_xor
      [where p = "[0x81, 0x02, 0x00, 0x04, 0x09, 0x00, 0x00, 0x00, 0x0D]"
         and q = "[0x81, 0x02, 0x09, 0x00, 0x00, 0x04, 0x00, 0x00, 0x0D]"
         and a = "0x81" and c = "0x02" and r = "0x0209"
         and frame = "[0x81, 0x02, 0x00, 0x04, 0x09, 0x00, 0x00, 0x00, 0x0D]"]
  by (simp add: py_slice_def build_request_def encode_register_def calculate_checksum_def
      py_bytes_def)


section \<open>Properties of the register access layer\<close>

subsection \<open>Rejected responses\<close>

lemma build_request_ok:
  assumes "0 \<le> c" "c < 256"
  shows "\<exists>frame. build_request PUMP_ADDRESS c r = Inr frame"
  using build_request_frame [OF pump_byte assms, of r] by blast

lemma exchange:
  assumes "port_open w" "0 \<le> c" "c < 256"
  shows "\<exists>w'. with_serial_lock
          (io_bind (io_lift (build_request PUMP_ADDRESS c r)) (\<lambda>request.
           io_bind (ser_write request) (\<lambda>_.
           ser_read n))) w = (Inr (pending_response n w), w')"
proof -
  obtain frame where "build_request PUMP_ADDRESS c r = Inr frame"
    using build_request_ok assms by blast
  then show ?thesis using assms(1)
    by (simp add: io_defs next_arrival_def pending_response_def Let_def)
qed

lemma read_register_bad:
  assumes "port_open w" "0 \<le> c" "c < 256" "0 < n"
    and bad0: "bad_response n dec (pending_response n w)"
  shows "fst (read_register r c n dec w) = Inr None"
proof -
  define resp where "resp = pending_response n w"
  obtain w' where ex: "with_serial_lock
          (io_bind (io_lift (build_request PUMP_ADDRESS c r)) (\<lambda>request.
           io_bind (ser_write request) (\<lambda>_.
           ser_read n))) w = (Inr resp, w')"
    using exchange [OF assms(1-3)] unfolding resp_def by blast
  have bad: "bad_response n dec resp" using bad0 unfolding resp_def .
  show ?thesis
  proof (cases "length resp = n")
    case False
    then show ?thesis
      unfolding read_register_def
      by (subst io_bind_def) (simp add: ex io_return_def logging_def io_bind_def)
  next
    case True
    with \<open>0 < n\<close> have ne: "resp \<noteq> []" by auto
    then have i0: "py_index resp 0 = Inr (resp ! 0)" by (simp add: py_index_def)
    show ?thesis
    proof (cases "resp ! 0 = PC_ADDRESS")
      case False
      then show ?thesis
        unfolding read_register_def
        by (subst io_bind_def)
          (simp add: ex True i0 io_return_def logging_def io_bind_def io_lift_def)
    next
      case addr: True
      show ?thesis
      proof (cases "n = 5")
        case n5: True
        then have l5: "length resp = 5" using True by simp
        then have v: "validate_response_checksum resp
                        = Inr (((resp ! 1 XOR resp ! 2) XOR resp ! 3) = resp ! 4)"
          by (simp add: validate_response_checksum_def py_index_def)
        from bad True ne addr l5
        have "((resp ! 1 XOR resp ! 2) XOR resp ! 3) \<noteq> resp ! 4
              \<or> (\<exists>e. dec resp = Inl e \<and> is_ValueError e)"
          by (auto simp: bad_response_def split: sum.splits)
        then show ?thesis
          unfolding read_register_def
          by (subst io_bind_def)
            (auto simp add: ex [unfolded n5] l5 i0 addr n5 v io_return_def logging_def
              io_bind_def io_lift_def)
      next
        case False
        with bad True ne addr have "\<exists>e. dec resp = Inl e \<and> is_ValueError e"
          by (auto simp: bad_response_def split: sum.splits)
        then show ?thesis
          unfolding read_register_def
          by (subst io_bind_def)
            (auto simp add: ex True i0 addr False io_return_def logging_def io_bind_def
              io_lift_def)
      qed
    qed
  qed
qed

text \<open>
  C2. On an open port, when the response delivered to a read has the wrong length, or does
  not start with the echo address 0x01, or has 5 bytes and a wrong checksum, or makes the
  decoder raise \<open>ValueError\<close>, then \<open>read_register\<close> returns \<open>None\<close> and raises nothing
  (for every command byte and every positive expected length); so do \<open>read_sensor\<close>,
  \<open>read_led_state\<close> and \<open>read_setting\<close>.
\<close>

theorem bad_response_reads_None:
  assumes "port_open w"
  shows "(0 \<le> command \<and> command < 256 \<and> 0 < n \<and> bad_response n dec (pending_response n w)
            \<longrightarrow> fst (read_register reg command n dec w) = Inr None)
         \<and> (bad_response 5 decode_rego_response (pending_response 5 w)
            \<longrightarrow> fst (read_sensor reg w) = Inr None
                \<and> fst (read_led_state reg w) = Inr None
                \<and> fst (read_setting reg w) = Inr None)"
  using assms read_register_bad [of w command n dec reg]
    read_register_bad [of w READ_SYSTEM_REGISTER 5 decode_rego_response reg]
    read_register_bad [of w READ_FRONT_PANEL 5 decode_rego_response reg]
  by (simp add: read_sensor_def read_led_state_def read_setting_def
      READ_SYSTEM_REGISTER_def READ_FRONT_PANEL_def)

theorem bad_response_reads_None_witness:
  "port_open (answering [[0x01, 0x00, 0x00, 0x01, 0x00]])
   \<and> pending_response 5 (answering [[0x01, 0x00, 0x00, 0x01, 0x00]]) = [0x01, 0x00, 0x00, 0x01, 0x00]
   \<and> bad_response 5 decode_rego_response [0x01, 0x00, 0x00, 0x01, 0x00]
   \<and> (0::int) \<le> 0x02 \<and> (0x02::int) < 256 \<and> (0::nat) < 5
   \<and> fst (read_register 0x020A 0x02 5 decode_rego_response
             (answering [[0x01, 0x00, 0x00, 0x01, 0x00]])) = Inr None
   \<and> fst (read_sensor 0x020A (answering [[0x01, 0x00, 0x00, 0x01, 0x00]])) = Inr None
   \<and> fst (read_led_state 0x020A (answering [[0x01, 0x00, 0x00, 0x01, 0x00]])) = Inr None
   \<and> fst (read_setting 0x020A (answering [[0x01, 0x00, 0x00, 0x01, 0x00]])) = Inr None"
proof -
  have p: "port_open (answering [[0x01, 0x00, 0x00, 0x01, 0x00]])"
    by (simp add: answering_def idle_port_def)
  have r: "pending_response 5 (answering [[0x01, 0x00, 0x00, 0x01, 0x00]])
             = [0x01, 0x00, 0x00, 0x01, 0x00]"
    by (simp add: answering_def idle_port_def pending_response_def next_arrival_def)
  have b: "bad_response 5 decode_rego_response [0x01, 0x00, 0x00, 0x01, 0x00]"
    by (simp add: bad_response_def)
  show ?thesis
    using bad_response_reads_None
      [OF p, where command = "0x02" and n = 5 and dec = decode_rego_response
        and reg = "0x020A"]
    by (simp add: p r b)
qed

subsection \<open>Turning the wheel\<close>

lemma wheel_reg: "py_getitem KEYPANEL_MAP ''Wheel'' = Inr 0x44"
  by (simp add: py_getitem_def KEYPANEL_MAP_def)

lemma encode_wheel: "encode_register 0x44 = [0, 0, 0x44]"
  by (simp add: encode_register_def)

text \<open>
  C3, as the specification states it: the value bytes that \<open>turn_wheel\<close> sends are the
  sentinel shifted right by 18, 11 and 4 bits, each masked to 7 bits. This fails for both
  directions: for \<open>right\<close> the bytes on the wire are 0, 0, 1 and not 0, 0, 0; for \<open>left\<close>
  they are 3, 0x7F, 0x7F and not 7, 0x7F, 0x7F.
\<close>

theorem turn_wheel_value_bytes_counterexample:
  "py_slice 5 8 (last (tx (snd (turn_wheel ''right'' idle_port)))) = [0x00, 0x00, 0x01]
   \<and> py_slice 5 8 (last (tx (snd (turn_wheel ''right'' idle_port))))
       \<noteq> claimed_wheel_bytes 0x000001
   \<and> py_slice 5 8 (last (tx (snd (turn_wheel ''left'' idle_port)))) = [0x03, 0x7F, 0x7F]
   \<and> py_slice 5 8 (last (tx (snd (turn_wheel ''left'' idle_port))))
       \<noteq> claimed_wheel_bytes 0x1FFFFF"
  by (simp add: turn_wheel_def wheel_reg encode_wheel wheel_value_bytes_def io_defs Let_def
      idle_port_def next_arrival_def calculate_checksum_def py_slice_def py_bytes_def
      PUMP_ADDRESS_def WRITE_FRONT_PANEL_def claimed_wheel_bytes_def)

text \<open>
  C3, amended: on an open port, for both directions, \<open>turn_wheel\<close> writes one frame whose
  value bytes are the sentinel shifted right by 18 bits and masked to 2 bits, shifted right
  by 11 bits and masked to 7 bits, and the unshifted sentinel masked to 7 bits: 3, 0x7F,
  0x7F for \<open>left\<close> and 0, 0, 1 for \<open>right\<close>.
\<close>

theorem turn_wheel_value_bytes:
  assumes "port_open w"
    and "(direction = ''left'' \<and> v = 0x1FFFFF) \<or> (direction = ''right'' \<and> v = 0x000001)"
  shows "tx (snd (turn_wheel direction w)) =
           tx w @ [[PUMP_ADDRESS, WRITE_FRONT_PANEL, 0x00, 0x00, 0x44,
                    drop_bit 18 v AND 0x03, drop_bit 11 v AND 0x7F, v AND 0x7F,
                    0x44 XOR (drop_bit 18 v AND 0x03) XOR (drop_bit 11 v AND 0x7F)
                      XOR (v AND 0x7F)]]"
  using assms
  by (auto simp add: turn_wheel_def wheel_reg encode_wheel wheel_value_bytes_def io_defs
      Let_def calculate_checksum_def py_slice_def py_bytes_def PUMP_ADDRESS_def
      WRITE_FRONT_PANEL_def)

theorem turn_wheel_value_bytes_witness:
  "port_open idle_port
   \<and> tx (snd (turn_wheel ''left'' idle_port)) = [[0x81, 0x01, 0x00, 0x00, 0x44, 0x03, 0x7F, 0x7F, 0x47]]
   \<and> tx (snd (turn_wheel ''right'' idle_port)) = [[0x81, 0x01, 0x00, 0x00, 0x44, 0x00, 0x00, 0x01, 0x45]]"
proof -
  have p: "port_open idle_port" by (simp add: idle_port_def)
  show ?thesis
    using turn_wheel_value_bytes [OF p, where direction = "''left''" and v = "0x1FFFFF"]
      turn_wheel_value_bytes [OF p, where direction = "''right''" and v = "0x000001"]
    by (simp add: idle_port_def PUMP_ADDRESS_def WRITE_FRONT_PANEL_def)
qed

text \<open>
  C10. For every direction other than \<open>left\<close> and \<open>right\<close>, \<open>turn_wheel\<close> returns
  \<open>False\<close>; the only change of the state is one line in the log: nothing is written to
  the port, nothing is read from it, and the serial lock is not acquired.
\<close>

theorem turn_wheel_invalid_direction:
  assumes "direction \<noteq> ''left''" and "direction \<noteq> ''right''"
  shows "turn_wheel direction w
           = (Inr False, w\<lparr>logs := logs w @ [(ERROR, ''Invalid direction for wheel'')]\<rparr>)
         \<and> tx (snd (turn_wheel direction w)) = tx w
         \<and> inbuf (snd (turn_wheel direction w)) = inbuf w
         \<and> arrivals (snd (turn_wheel direction w)) = arrivals w
         \<and> lock_count (snd (turn_wheel direction w)) = lock_count w"
  using assms by (simp add: turn_wheel_def wheel_reg io_defs Let_def)

theorem turn_wheel_invalid_direction_witness:
  "''up'' \<noteq> ''left'' \<and> ''up'' \<noteq> ''right''
   \<and> fst (turn_wheel ''up'' (answering [[0x01]])) = Inr False
   \<and> tx (snd (turn_wheel ''up'' (answering [[0x01]]))) = []
   \<and> arrivals (snd (turn_wheel ''up'' (answering [[0x01]]))) = [[0x01]]
   \<and> lock_count (snd (turn_wheel ''up'' (answering [[0x01]]))) = 0"
  using turn_wheel_invalid_direction [where direction = "''up''" and w = "answering [[0x01]]"]
  by (simp add: answering_def idle_port_def)


section \<open>Properties of the display decoder\<close>

lemma display_loop_concat:
  "display_loop data idx acc
     = acc @ concat (map (\<lambda>i. glyph_of (data ! i) (data ! (i + 1))) idx)"
  by (induction idx arbitrary: acc) (simp_all add: glyph_of_def Let_def)

lemma display_range: "py_range 1 41 2 = map (\<lambda>k. 2 * k + 1) [0..<20]"
  by (simp add: py_range_def mult.commute)

lemma display_loop_chars:
  "display_loop data (py_range 1 41 2) [] = display_chars data"
  unfolding display_loop_concat display_range display_chars_def
  by (simp add: comp_def)

lemma decode_display_strip:
  assumes "length data = 42" "data ! 0 = PC_ADDRESS"
  shows "decode_display_response data = Inr (py_strip (display_chars data))"
  unfolding decode_display_response_def display_loop_chars
  using assms by (simp add: py_index_def)

lemma strip_parts:
  "\<exists>pre post. s = pre @ py_strip s @ post \<and> list_all py_isspace pre \<and> list_all py_isspace post"
proof -
  define tk where "tk = takeWhile py_isspace (rev s)"
  define d where "d = dropWhile py_isspace (rev s)"
  define pre where "pre = takeWhile py_isspace (rev d)"
  have "rev (rev s) = rev (tk @ d)"
    by (simp only: tk_def d_def takeWhile_dropWhile_id)
  then have s: "s = rev d @ rev tk"
    by (simp only: rev_rev_ident rev_append)
  have st: "py_strip s = dropWhile py_isspace (rev d)"
    by (simp only: py_strip_def d_def)
  have "rev d = pre @ py_strip s"
    by (simp only: pre_def st takeWhile_dropWhile_id)
  with s have "s = pre @ py_strip s @ rev tk"
    by (simp only: append_assoc)
  moreover have "list_all py_isspace pre"
    unfolding pre_def list_all_iff by (blast dest: set_takeWhileD)
  moreover have "list_all py_isspace tk"
    unfolding tk_def list_all_iff by (blast dest: set_takeWhileD)
  then have "list_all py_isspace (rev tk)"
    by (simp only: list_all_iff set_rev)
  ultimately show ?thesis by blast
qed

lemma strip_ends:
  "py_strip s = [] \<or> (\<not> py_isspace (hd (py_strip s)) \<and> \<not> py_isspace (last (py_strip s)))"
proof (cases "py_strip s = []")
  case True
  then show ?thesis by simp
next
  case False
  define d where "d = dropWhile py_isspace (rev s)"
  have st: "py_strip s = dropWhile py_isspace (rev d)"
    by (simp only: py_strip_def d_def)
  from False have d: "d \<noteq> []"
    unfolding st by auto
  have h: "\<not> py_isspace (hd (py_strip s))"
    using False unfolding st by (rule hd_dropWhile)
  have "rev d = takeWhile py_isspace (rev d) @ py_strip s"
    by (simp only: st takeWhile_dropWhile_id)
  then have "last (rev d) = last (takeWhile py_isspace (rev d) @ py_strip s)"
    by (rule arg_cong)
  moreover have "last (takeWhile py_isspace (rev d) @ py_strip s) = last (py_strip s)"
    using False by (rule last_appendR)
  ultimately have "last (rev d) = last (py_strip s)"
    by (rule trans)
  moreover have "last (rev d) = hd d"
    using d by (simp only: last_rev)
  moreover have "\<not> py_isspace (hd d)"
    using d unfolding d_def by (rule hd_dropWhile)
  ultimately have "\<not> py_isspace (last (py_strip s))" by simp
  with h show ?thesis by blast
qed

lemma strip_trimmed: "trimmed_both_ends s (py_strip s)"
proof -
  define t where "t = py_strip s"
  obtain pre post where s: "s = pre @ t @ post"
    and ws: "list_all py_isspace pre" "list_all py_isspace post"
    using strip_parts [of s] unfolding t_def by blast
  have "length pre \<le> length s" by (simp add: s)
  then have n: "length pre \<in> set [0..<Suc (length s)]" by auto
  have "take (length pre) s = pre" by (simp add: s)
  moreover have "take (length t) (drop (length pre) s) = t" by (simp add: s)
  moreover have "drop (length pre + length t) s = post" by (simp add: s)
  ultimately have "list_all py_isspace (take (length pre) s)
      \<and> take (length t) (drop (length pre) s) = t
      \<and> list_all py_isspace (drop (length pre + length t) s)"
    using ws by simp
  with n have "list_ex (\<lambda>n. list_all py_isspace (take n s)
                      \<and> take (length t) (drop n s) = t
                      \<and> list_all py_isspace (drop (n + length t) s))
            [0..<Suc (length s)]"
    unfolding list_ex_iff by blast
  moreover have "t = [] \<or> (\<not> py_isspace (hd t) \<and> \<not> py_isspace (last t))"
    unfolding t_def by (rule strip_ends)
  ultimately show ?thesis
    unfolding trimmed_both_ends_def t_def by blast
qed

lemma low_nibbles_nth:
  assumes "length data = 42" "k < 40"
  shows "data ! (k + 1) AND 0x0F = low_nibbles data ! k"
  using assms by (simp add: low_nibbles_def py_slice_def)

lemma display_chars_nibbles:
  assumes "length data = 42"
  shows "display_chars data = chars_of_nibbles (low_nibbles data)"
proof -
  have "glyph_of (data ! (2 * k + 1)) (data ! (2 * k + 2))
          = glyph_of (low_nibbles data ! (2 * k)) (low_nibbles data ! (2 * k + 1))"
    if "k < 20" for k
  proof -
    from that have "2 * k < 40" "2 * k + 1 < 40" by simp_all
    then have "data ! (2 * k + 1) AND 0x0F = low_nibbles data ! (2 * k)"
      "data ! (2 * k + 1 + 1) AND 0x0F = low_nibbles data ! (2 * k + 1)"
      using low_nibbles_nth [OF assms] by blast+
    moreover have "low_nibbles data ! j AND 0x0F = low_nibbles data ! j" if "j < 40" for j
      using that assms by (simp add: low_nibbles_def py_slice_def and.assoc)
    ultimately show ?thesis
      using \<open>2 * k < 40\<close> \<open>2 * k + 1 < 40\<close> by (simp add: glyph_of_def)
  qed
  then show ?thesis
    unfolding display_chars_def chars_of_nibbles_def
    by (intro arg_cong [where f = concat] map_cong) simp_all
qed


lemma filler_chars: "py_strip (chars_of_nibbles (replicate 40 0x0F)) = replicate 20 0xF0A2"
  by code_simp

lemma hello_chars:
  "py_strip (chars_of_nibbles (hello_nibbles @ replicate 30 0x0F))
     = py_str ''HELLO'' @ replicate 15 0xF0A2"
  by code_simp

lemma hello_frame:
  "length (display_frame (hello_nibbles @ replicate 30 0x0F)) = 42
   \<and> display_frame (hello_nibbles @ replicate 30 0x0F) ! 0 = PC_ADDRESS
   \<and> low_nibbles (display_frame (hello_nibbles @ replicate 30 0x0F))
       = hello_nibbles @ replicate 30 0x0F"
  by code_simp

lemma filler_frame:
  "length (display_frame (replicate 40 0x0F)) = 42
   \<and> display_frame (replicate 40 0x0F) ! 0 = PC_ADDRESS
   \<and> low_nibbles (display_frame (replicate 40 0x0F)) = replicate 40 0x0F"
  by code_simp

lemma spaced_frame:
  "length (display_frame spaced_nibbles) = 42
   \<and> display_frame spaced_nibbles ! 0 = PC_ADDRESS
   \<and> decode_display_response (display_frame spaced_nibbles) = Inr (py_str ''A'')
   \<and> display_chars (display_frame spaced_nibbles)
       = py_str '' A'' @ replicate 18 0x20
   \<and> trimmed_both_ends (py_str '' A'' @ replicate 18 0x20) (py_str ''A'')"
  by code_simp

text \<open>
  C6, as the specification states it: the filler glyph is mapped to the empty text and
  trailing whitespace is trimmed, so that an all-filler response decodes to the empty text
  and a response encoding \<open>HELLO\<close> followed by filler decodes to \<open>HELLO\<close>. This fails:
  the decoder replaces the filler glyph by the character U+F0A2, which \<open>strip()\<close> keeps,
  so the all-filler response decodes to twenty such characters and \<open>HELLO\<close> is followed by
  fifteen of them; and for a response encoding a space, the letter A and 18 spaces the
  decoder returns \<open>A\<close>, where trimming of trailing whitespace alone leaves the leading
  space.
\<close>

theorem decode_display_text_counterexample:
  "length (display_frame (replicate 40 0x0F)) = 42
   \<and> display_frame (replicate 40 0x0F) ! 0 = PC_ADDRESS
   \<and> decode_display_response (display_frame (replicate 40 0x0F)) = Inr (replicate 20 0xF0A2)
   \<and> decode_display_response (display_frame (replicate 40 0x0F)) \<noteq> Inr []
   \<and> decode_display_response (display_frame (replicate 40 0x0F))
       \<noteq> Inr (claimed_display_text (display_frame (replicate 40 0x0F)))
   \<and> decode_display_response (display_frame (hello_nibbles @ replicate 30 0x0F))
       = Inr (py_str ''HELLO'' @ replicate 15 0xF0A2)
   \<and> decode_display_response (display_frame (hello_nibbles @ replicate 30 0x0F))
       \<noteq> Inr (py_str ''HELLO'')
   \<and> decode_display_response (display_frame spaced_nibbles) = Inr (py_str ''A'')
   \<and> claimed_display_text (display_frame spaced_nibbles) = py_str '' A''
   \<and> decode_display_response (display_frame spaced_nibbles)
       \<noteq> Inr (claimed_display_text (display_frame spaced_nibbles))"
  by code_simp

text \<open>
  C6, amended: for every 42-byte display response whose byte 0 is the echo address 0x01,
  \<open>decode_display_response\<close> reconstructs one character per nibble pair at offsets 1..40,
  maps the filler glyph (code 0xFF) to the character U+F0A2 and the degree glyph (code
  0xDF) to the degree sign, and trims leading and trailing whitespace; in particular an
  all-filler response decodes to twenty characters U+F0A2, and a response carrying the
  nibbles of \<open>HELLO\<close> followed by filler decodes to \<open>HELLO\<close> followed by fifteen
  characters U+F0A2.
\<close>

theorem decode_display_text:
  assumes "length data = 42" and "data ! 0 = PC_ADDRESS"
  shows "(\<exists>txt. decode_display_response data = Inr txt
                \<and> trimmed_both_ends (display_chars data) txt)
         \<and> (low_nibbles data = replicate 40 0x0F
              \<longrightarrow> decode_display_response data = Inr (replicate 20 0xF0A2))
         \<and> (low_nibbles data = hello_nibbles @ replicate 30 0x0F
              \<longrightarrow> decode_display_response data
                    = Inr (py_str ''HELLO'' @ replicate 15 0xF0A2))"
proof (intro conjI impI)
  have d: "decode_display_response data = Inr (py_strip (display_chars data))"
    using assms by (rule decode_display_strip)
  then show "\<exists>txt. decode_display_response data = Inr txt
                  \<and> trimmed_both_ends (display_chars data) txt"
    using strip_trimmed by blast
  have c: "display_chars data = chars_of_nibbles (low_nibbles data)"
    using assms(1) by (rule display_chars_nibbles)
  {
    assume "low_nibbles data = replicate 40 0x0F"
    with d c show "decode_display_response data = Inr (replicate 20 0xF0A2)"
      by (simp only: filler_chars)
  }
  {
    assume "low_nibbles data = hello_nibbles @ replicate 30 0x0F"
    with d c show "decode_display_response data
                     = Inr (py_str ''HELLO'' @ replicate 15 0xF0A2)"
      by (simp only: hello_chars)
  }
qed

theorem decode_display_text_witness:
  "length (display_frame (hello_nibbles @ replicate 30 0x0F)) = 42
   \<and> display_frame (hello_nibbles @ replicate 30 0x0F) ! 0 = PC_ADDRESS
   \<and> low_nibbles (display_frame (hello_nibbles @ replicate 30 0x0F))
       = hello_nibbles @ replicate 30 0x0F
   \<and> decode_display_response (display_frame (hello_nibbles @ replicate 30 0x0F))
       = Inr (py_str ''HELLO'' @ replicate 15 0xF0A2)
   \<and> length (display_frame (replicate 40 0x0F)) = 42
   \<and> display_frame (replicate 40 0x0F) ! 0 = PC_ADDRESS
   \<and> low_nibbles (display_frame (replicate 40 0x0F)) = replicate 40 0x0F
   \<and> decode_display_response (display_frame (replicate 40 0x0F)) = Inr (replicate 20 0xF0A2)
   \<and> length (display_frame spaced_nibbles) = 42
   \<and> display_frame spaced_nibbles ! 0 = PC_ADDRESS
   \<and> decode_display_response (display_frame spaced_nibbles) = Inr (py_str ''A'')
   \<and> trimmed_both_ends (display_chars (display_frame spaced_nibbles)) (py_str ''A'')"
proof -
  have "\<exists>txt. decode_display_response (display_frame spaced_nibbles) = Inr txt
             \<and> trimmed_both_ends (display_chars (display_frame spaced_nibbles)) txt"
    using decode_display_text [of "display_frame spaced_nibbles"] spaced_frame by blast
  then have "trimmed_both_ends (display_chars (display_frame spaced_nibbles)) (py_str ''A'')"
    using spaced_frame by auto
  then show ?thesis
    using hello_frame filler_frame spaced_frame
      decode_display_text [of "display_frame (hello_nibbles @ replicate 30 0x0F)"]
      decode_display_text [of "display_frame (replicate 40 0x0F)"]
    by blast
qed

section \<open>Properties of the power computation\<close>

text \<open>
  For the pump sizes 14 and 16 the table of binary sensors holds the auxiliary-heat stages
  under the labels \<open>Add heat 5kw\<close> and \<open>Add heat 10kw\<close>, and \<open>publish_power_sensors\<close>
  looks them up under \<open>Add heat 3kw\<close> and \<open>Add heat 6kw\<close>: the lookup raises \<open>KeyError\<close>
  after the compressor has been read, the handler of the function catches it, nothing is
  published and the result is 0, whatever the controller answers.
\<close>

lemma no_label_3kw:
  assumes "k = 14 \<or> k = 16"
  shows "py_getitem (BINARY_SENSOR_MAP k) ''Add heat 3kw'' = Inl KeyError"
  using assms by (auto simp add: BINARY_SENSOR_MAP_def dict_update_def py_getitem_def)

lemma sensor_3kw_raises:
  assumes "k = 14 \<or> k = 16"
  shows "sensor_is_on k ''Add heat 3kw'' w = (Inl KeyError, w)"
  by (simp add: sensor_is_on_def no_label_3kw [OF assms] io_bind_def io_lift_def)

lemma keeps_bind:
  "keeps_published m \<Longrightarrow> (\<And>x. keeps_published (f x)) \<Longrightarrow> keeps_published (io_bind m f)"
  unfolding keeps_published_def io_bind_def
  by (auto split: prod.splits sum.splits) (metis snd_conv)+

lemma keeps_prims:
  "keeps_published (io_return x)" "keeps_published (io_raise e)" "keeps_published (io_lift r)"
  "keeps_published (logging l s)" "keeps_published (ser_write d)" "keeps_published (ser_read n)"
  by (simp_all add: keeps_published_def io_defs Let_def)

lemma keeps_lock: "keeps_published m \<Longrightarrow> keeps_published (with_serial_lock m)"
  by (simp add: keeps_published_def with_serial_lock_def)

lemma keeps_read_register: "keeps_published (read_register r c n dec)"
  unfolding read_register_def
  by (intro keeps_bind keeps_lock keeps_prims)
    (auto intro!: keeps_bind keeps_prims split: sum.splits)

lemma keeps_sensor: "keeps_published (sensor_is_on k name)"
  unfolding sensor_is_on_def read_sensor_def
  by (intro keeps_bind keeps_prims keeps_read_register)

lemma large_pump_power:
  assumes "k = 14 \<or> k = 16"
  shows "fst (publish_power_sensors k w) = Inr 0
         \<and> published (snd (publish_power_sensors k w)) = published w"
proof -
  obtain r w1 where c: "sensor_is_on k ''Compressor'' w = (r, w1)"
    by (cases "sensor_is_on k ''Compressor'' w")
  have p: "published w1 = published w"
    using keeps_sensor [of k "''Compressor''"] c by (auto simp add: keeps_published_def dest: spec [of _ w])
  show ?thesis
  proof (cases r)
    case (Inl e)
    with c p show ?thesis
      unfolding publish_power_sensors_def io_try_def
      by (subst io_bind_def, subst io_bind_def) (simp add: logging_def io_return_def io_bind_def)
  next
    case (Inr b)
    with c p show ?thesis
      unfolding publish_power_sensors_def io_try_def
      by (subst io_bind_def, subst io_bind_def, simp, subst io_bind_def, subst io_bind_def)
        (simp add: sensor_3kw_raises [OF assms] logging_def io_return_def io_bind_def)
  qed
qed


text \<open>
  C4, evaluated where the code departs from it: with a controller that reports all six
  components as active, the power computation of a 14 kW and of a 16 kW pump returns 0 and
  publishes nothing, while that of a 5 kW pump returns the sum of the six wattages.
\<close>

theorem power_sensors_large_pump_all_active:
  "fst (publish_power_sensors 14 (answering (replicate 6 [0x01, 0x00, 0x00, 0x01, 0x01]))) = Inr 0
   \<and> published (snd (publish_power_sensors 14
          (answering (replicate 6 [0x01, 0x00, 0x00, 0x01, 0x01])))) = []
   \<and> fst (publish_power_sensors 16 (answering (replicate 6 [0x01, 0x00, 0x00, 0x01, 0x01]))) = Inr 0
   \<and> published (snd (publish_power_sensors 16
          (answering (replicate 6 [0x01, 0x00, 0x00, 0x01, 0x01])))) = []
   \<and> fst (publish_power_sensors 5 (answering (replicate 6 [0x01, 0x00, 0x00, 0x01, 0x01])))
       = Inr (1500 + 3000 + 6000 + 55 + 46 + 106)"
  by code_simp

section \<open>Properties of the command handler\<close>

text \<open>
  C8, evaluated where the code departs from it: a command message whose payload is the
  single byte 0xFF is not an integer; the handler raises \<open>UnicodeDecodeError\<close> at
  \<open>msg.payload.decode()\<close>, before the \<open>try\<close> that guards \<open>int(...)\<close>, instead of logging
  and returning. The state is unchanged.
\<close>

theorem on_mqtt_message_undecodable_payload:
  "on_mqtt_message py_int \<lparr>topic = ''rego600/set/key/1'', payload = [0xFF]\<rparr> w
     = (Inl UnicodeDecodeError, w)"
  by (simp add: on_mqtt_message_def io_bind_def io_lift_def)

text \<open>
  What the guard does cover: when the payload is valid UTF-8 and \<open>int\<close> rejects the text,
  the handler logs a warning and returns, and nothing else changes.
\<close>

lemma on_mqtt_message_text_not_integer:
  assumes "utf8_decode (payload msg) = Inr payload_raw"
    and "py_int payload_raw = Inl ValueError"
  shows "on_mqtt_message py_int msg w
           = (Inr (), w\<lparr>logs := logs w @ [(WARNING, ''Ignores invalid payload'')]\<rparr>)"
  using assms
  by (simp add: on_mqtt_message_def io_bind_def io_lift_def logging_def is_ValueError_def)

end
